theory Spec2Isabelle
  imports Complex_Main
begin

section \<open>UltraAIService: a shallow embedding\<close>

text \<open>
  The class \<open>UltraAIService\<close> (file \<open>README.md\<close>, second document) is embedded function
  by function. Conventions of the embedding:

  \<^item> A JavaScript string is a \<open>string\<close>: a list of code units, here the 8-bit range.
    \<open>text.length\<close> is \<open>length\<close>.
  \<^item> A finite JavaScript number is the \<open>real\<close> it denotes (a \<open>rat\<close> inside parsed JSON);
    comparisons are exact. In \<open>estimateCost\<close> the rounding of doubles is a parameter
    \<open>round_double\<close>, applied to every literal and to the result of every operation, and
    \<open>NaN\<close> is a value of its own; \<open>estimateTokens\<close> is read in exact arithmetic.
  \<^item> What reading a property of an object gives is an \<open>option\<close>: \<open>None\<close> is \<open>undefined\<close>.
    Where the source spreads an object, an own key that holds \<open>undefined\<close> is told from
    an absent key.
  \<^item> A lookup \<open>table[key]\<close> in an object literal finds the own keys of the literal and
    the property names it inherits from \<open>Object.prototype\<close>.
  \<^item> The callbacks \<open>onChunk\<close>, \<open>onComplete\<close> and \<open>onError\<close> record an event and return;
    a run of a streaming method is the list of the callbacks it made, in order.
  \<^item> \<open>JSON.parse\<close> belongs to the runtime, not to the repository: it is a parameter
    \<open>JSON_parse\<close> of the stream functions, \<open>None\<close> when it throws.
\<close>

subsection \<open>Strings\<close>

text \<open>The white space of \<open>String.prototype.trim\<close> and of the regular expression
  class \<open>\s\<close>, within the 8-bit range: TAB, LF, VT, FF, CR, SP and NBSP.\<close>

definition is_space :: "char \<Rightarrow> bool" where
  "is_space c = (c = CHR 0x09 \<or> c = CHR 0x0A \<or> c = CHR 0x0B \<or> c = CHR 0x0C
     \<or> c = CHR 0x0D \<or> c = CHR 0x20 \<or> c = CHR 0xA0)"

text \<open>\<open>line.trim()\<close>\<close>

definition trim :: "string \<Rightarrow> string" where
  "trim s = rev (dropWhile is_space (rev (dropWhile is_space s)))"

text \<open>\<open>s.startsWith(p)\<close>\<close>

definition startsWith :: "string \<Rightarrow> string \<Rightarrow> bool" where
  "startsWith s p = (take (length p) s = p)"

text \<open>\<open>buffer.split('\n')\<close>: the segments between line feeds; never empty, and the last
  segment is what follows the last line feed. (The first branch of the inner \<open>case\<close>
  is never taken: the result of the recursive call is not empty.)\<close>

fun split_nl :: "string \<Rightarrow> string list" where
  "split_nl [] = [[]]"
| "split_nl (c # cs) =
     (if c = CHR 0x0A then [] # split_nl cs
      else (case split_nl cs of [] \<Rightarrow> [[c]] | seg # segs \<Rightarrow> (c # seg) # segs))"

subsection \<open>Parsed JSON and the optional chain\<close>

text \<open>The values \<open>JSON.parse\<close> returns. An object holds its own properties, each key
  once.\<close>

datatype json =
    JNull
  | JBool bool
  | JNum rat
  | JStr string
  | JArr "json list"
  | JObj "(string \<times> json) list"

text \<open>What is thrown and what \<open>onError\<close> receives: a \<open>TypeError\<close> or an \<open>Error\<close> with its
  message; \<open>HttpError status\<close>, which stands for the \<open>Error\<close> with the message
  \<open>HTTP error! status: \<close> followed by the status; and the reason with which a promise of
  \<open>fetch\<close> or of \<open>reader.read()\<close> is rejected.\<close>

datatype js_error =
    TypeError string
  | Error string
  | HttpError nat
  | Rejected string

text \<open>\<open>v.k\<close> for a value \<open>v\<close> that is neither \<open>null\<close> nor \<open>undefined\<close> and a key \<open>k\<close> that no
  prototype defines (\<open>choices\<close>, \<open>delta\<close>, \<open>content\<close>): an own property of an object,
  \<open>undefined\<close> on anything else.\<close>

fun get_member :: "json \<Rightarrow> string \<Rightarrow> json option" where
  "get_member (JObj kvs) k = map_of kvs k"
| "get_member _ k = None"

text \<open>\<open>v[0]\<close> for a value \<open>v\<close> that is neither \<open>null\<close> nor \<open>undefined\<close>: the first element
  of an array, the first code unit of a string, the property \<open>"0"\<close> of an object.\<close>

fun get_index0 :: "json \<Rightarrow> json option" where
  "get_index0 (JArr xs) = (case xs of [] \<Rightarrow> None | x # _ \<Rightarrow> Some x)"
| "get_index0 (JStr s) = (case s of [] \<Rightarrow> None | c # _ \<Rightarrow> Some (JStr [c]))"
| "get_index0 (JObj kvs) = map_of kvs ''0''"
| "get_index0 _ = None"

text \<open>\<open>data.choices[0]?.delta?.content\<close>. Reading \<open>choices\<close> of \<open>null\<close>, and indexing a
  \<open>choices\<close> that is \<open>null\<close> or \<open>undefined\<close>, throws a \<open>TypeError\<close>; each \<open>?.\<close> ends the
  chain with \<open>undefined\<close> when its left side is \<open>null\<close> or \<open>undefined\<close>.\<close>

definition delta_content :: "json \<Rightarrow> js_error + json option" where
  "delta_content data =
     (case data of
        JNull \<Rightarrow> Inl (TypeError ''Cannot read properties of null'')
      | _ \<Rightarrow>
        (case get_member data ''choices'' of
           None \<Rightarrow> Inl (TypeError ''Cannot read properties of undefined'')
         | Some JNull \<Rightarrow> Inl (TypeError ''Cannot read properties of null'')
         | Some choices \<Rightarrow>
           (case get_index0 choices of
              None \<Rightarrow> Inr None
            | Some JNull \<Rightarrow> Inr None
            | Some choice \<Rightarrow>
              (case get_member choice ''delta'' of
                 None \<Rightarrow> Inr None
               | Some JNull \<Rightarrow> Inr None
               | Some delta \<Rightarrow> Inr (get_member delta ''content'')))))"

text \<open>\<open>if (chunk)\<close>: the truthiness of a value other than \<open>undefined\<close> (which is
  falsy).\<close>

fun truthy :: "json \<Rightarrow> bool" where
  "truthy JNull = False"
| "truthy (JBool b) = b"
| "truthy (JNum n) = (n \<noteq> 0)"
| "truthy (JStr s) = (s \<noteq> [])"
| "truthy (JArr xs) = True"
| "truthy (JObj kvs) = True"

subsection \<open>The parse loop of openAIStream\<close>

datatype callback =
    OnChunk json
  | OnComplete
  | OnError js_error

text \<open>The terminal callbacks are \<open>onComplete\<close> and \<open>onError\<close>.\<close>

fun is_terminal :: "callback \<Rightarrow> bool" where
  "is_terminal (OnChunk chunk) = False"
| "is_terminal OnComplete = True"
| "is_terminal (OnError e) = True"

text \<open>One pass of the body of \<open>for (const line of lines)\<close>: either \<open>onComplete(); return\<close>
  (\<open>Return\<close>), or the callbacks of the line and on to the next line. The \<open>try\<close> around
  \<open>JSON.parse\<close> and the optional chain catches both a parse failure and a \<open>TypeError\<close>,
  logs it and goes on.\<close>

datatype line_result = Return | Next "callback list"

definition handle_line :: "(string \<Rightarrow> json option) \<Rightarrow> string \<Rightarrow> line_result" where
  "handle_line JSON_parse line =
     (let trimmedLine = trim line in
      if trimmedLine = [] \<or> trimmedLine = ''data: [DONE]'' then Return
      else if startsWith trimmedLine ''data: '' then
        (case JSON_parse (drop 6 trimmedLine) of
           None \<Rightarrow> Next []
         | Some data \<Rightarrow>
           (case delta_content data of
              Inl e \<Rightarrow> Next []
            | Inr None \<Rightarrow> Next []
            | Inr (Some chunk) \<Rightarrow> if truthy chunk then Next [OnChunk chunk] else Next []))
      else Next [])"

text \<open>The \<open>for\<close> loop over the complete lines of one read: the callbacks made, and
  whether the method returned (after \<open>onComplete\<close>).\<close>

fun for_lines :: "(string \<Rightarrow> json option) \<Rightarrow> string list \<Rightarrow> callback list \<times> bool" where
  "for_lines JSON_parse [] = ([], False)"
| "for_lines JSON_parse (line # lines) =
     (case handle_line JSON_parse line of
        Return \<Rightarrow> ([OnComplete], True)
      | Next cbs \<Rightarrow>
        (case for_lines JSON_parse lines of (rest, returned) \<Rightarrow> (cbs @ rest, returned)))"

text \<open>The response body as the reader delivers it: each \<open>reader.read()\<close> either yields a
  chunk or rejects; when the list is used up the reader reports \<open>done\<close>. A chunk is
  given by its text as \<open>decoder.decode(value, { stream: true })\<close> returns it: the
  decoder holds back a character cut by a chunk boundary, so the texts of the chunks
  make up the text of the body wherever the boundaries fall.\<close>

datatype read_result = Value string | ReadRejected string

text \<open>\<open>while (true)\<close>: the callbacks made, and the error thrown out of the loop, if
  any. \<open>done\<close> breaks the loop, after which the method ends with no further callback.\<close>

fun read_loop ::
  "(string \<Rightarrow> json option) \<Rightarrow> string \<Rightarrow> read_result list \<Rightarrow> callback list \<times> js_error option"
where
  "read_loop JSON_parse buffer [] = ([], None)"
| "read_loop JSON_parse buffer (ReadRejected why # reads) = ([], Some (Rejected why))"
| "read_loop JSON_parse buffer (Value chunk # reads) =
     (let lines = split_nl (buffer @ chunk) in
      case for_lines JSON_parse (butlast lines) of
        (cbs, True) \<Rightarrow> (cbs, None)
      | (cbs, False) \<Rightarrow>
        (case read_loop JSON_parse (last lines) reads of
           (rest, thrown) \<Rightarrow> (cbs @ rest, thrown)))"

subsection \<open>Object literals\<close>

text \<open>The property names every object literal inherits from \<open>Object.prototype\<close>. Each
  holds a function, or for \<open>__proto__\<close> the prototype object itself: a truthy value that
  has none of the properties \<open>includes\<close>, \<open>input\<close> and \<open>output\<close>.\<close>

definition object_prototype_keys :: "string list" where
  "object_prototype_keys =
     [''constructor'', ''__defineGetter__'', ''__defineSetter__'', ''hasOwnProperty'',
      ''__lookupGetter__'', ''__lookupSetter__'', ''isPrototypeOf'', ''propertyIsEnumerable'',
      ''toString'', ''valueOf'', ''__proto__'', ''toLocaleString'']"

text \<open>\<open>table[key]\<close> for an object literal \<open>table\<close>: the value of an own key, else a value
  inherited from \<open>Object.prototype\<close>, else \<open>undefined\<close>.\<close>

datatype 'a property = Undefined | Inherited | Own 'a

definition object_literal :: "(string \<times> 'a) list \<Rightarrow> string \<Rightarrow> 'a property" where
  "object_literal entries key =
     (case map_of entries key of
        Some v \<Rightarrow> Own v
      | None \<Rightarrow> if key \<in> set object_prototype_keys then Inherited else Undefined)"

subsection \<open>Messages and settings\<close>

text \<open>\<open>settings\<close> holds what reading each property of a settings object gives. A
  \<open>settings_object\<close> is the object as \<open>{...defaults, ...settings}\<close> sees it: each key is
  absent, or present with a value that may be \<open>undefined\<close>.\<close>

record message =
  role :: string
  content :: string

record settings =
  provider :: "string option"
  model :: "string option"
  temperature :: "real option"
  maxTokens :: "real option"
  topP :: "real option"
  frequencyPenalty :: "real option"
  presencePenalty :: "real option"
  stream :: "bool option"

definition defaultSettings :: settings where
  "defaultSettings =
     \<lparr>provider = Some ''openai'', model = Some ''gpt-3.5-turbo'', temperature = Some 0.7,
      maxTokens = Some 2000, topP = Some 1, frequencyPenalty = Some 0,
      presencePenalty = Some 0, stream = Some True\<rparr>"

definition availableModels :: "string \<Rightarrow> string list property" where
  "availableModels = object_literal
     [(''openai'', [''gpt-4'', ''gpt-4-32k'', ''gpt-4-turbo-preview'', ''gpt-3.5-turbo'',
         ''gpt-3.5-turbo-16k'', ''gpt-4-vision-preview'']),
      (''anthropic'', [''claude-3-opus-20240229'', ''claude-3-sonnet-20240229'',
         ''claude-2.1'', ''claude-instant-1.2'']),
      (''cohere'', [''command'', ''command-nightly'', ''command-light'',
         ''command-light-nightly'']),
      (''huggingface'', [''mistralai/Mistral-7B-Instruct-v0.2'', ''google/flan-t5-xxl'',
         ''microsoft/DialoGPT-large''])]"

text \<open>\<open>a || b\<close> on strings that may be \<open>undefined\<close>: \<open>b\<close> when \<open>a\<close> is \<open>undefined\<close> or
  empty.\<close>

fun or_string :: "string option \<Rightarrow> string option \<Rightarrow> string option" where
  "or_string None b = b"
| "or_string (Some a) b = (if a = [] then b else Some a)"

datatype 'a own_key = Absent | Present "'a option"

record settings_object =
  own_provider :: "string own_key"
  own_model :: "string own_key"
  own_temperature :: "real own_key"
  own_maxTokens :: "real own_key"
  own_topP :: "real own_key"
  own_frequencyPenalty :: "real own_key"
  own_presencePenalty :: "real own_key"
  own_stream :: "bool own_key"

text \<open>Reading a property: \<open>undefined\<close> for an absent key.\<close>

fun read_key :: "'a own_key \<Rightarrow> 'a option" where
  "read_key Absent = None"
| "read_key (Present v) = v"

definition property_values :: "settings_object \<Rightarrow> settings" where
  "property_values obj =
     \<lparr>provider = read_key (own_provider obj),
      model = read_key (own_model obj),
      temperature = read_key (own_temperature obj),
      maxTokens = read_key (own_maxTokens obj),
      topP = read_key (own_topP obj),
      frequencyPenalty = read_key (own_frequencyPenalty obj),
      presencePenalty = read_key (own_presencePenalty obj),
      stream = read_key (own_stream obj)\<rparr>"

text \<open>One property of \<open>{...defaults, ...given}\<close>: the default when the key is absent from
  the given object, else the given value, also when it is \<open>undefined\<close>.\<close>

fun spread_field :: "'a option \<Rightarrow> 'a own_key \<Rightarrow> 'a option" where
  "spread_field d Absent = d"
| "spread_field d (Present v) = v"

definition spread :: "settings \<Rightarrow> settings_object \<Rightarrow> settings" where
  "spread d obj =
     \<lparr>provider = spread_field (provider d) (own_provider obj),
      model = spread_field (model d) (own_model obj),
      temperature = spread_field (temperature d) (own_temperature obj),
      maxTokens = spread_field (maxTokens d) (own_maxTokens obj),
      topP = spread_field (topP d) (own_topP obj),
      frequencyPenalty = spread_field (frequencyPenalty d) (own_frequencyPenalty obj),
      presencePenalty = spread_field (presencePenalty d) (own_presencePenalty obj),
      stream = spread_field (stream d) (own_stream obj)\<rparr>"

text \<open>A template literal, and a property key, print \<open>undefined\<close> for a missing value.\<close>

fun interpolate :: "string option \<Rightarrow> string" where
  "interpolate None = ''undefined''"
| "interpolate (Some s) = s"

definition formatMessagesForOpenAI :: "message list \<Rightarrow> message list" where
  "formatMessagesForOpenAI messages =
     map (\<lambda>msg. \<lparr>role = role msg, content = content msg\<rparr>) messages"

definition formatMessagesForAnthropic :: "message list \<Rightarrow> message list" where
  "formatMessagesForAnthropic messages =
     map (\<lambda>msg. \<lparr>role = (if role msg = ''assistant'' then ''assistant'' else ''user''),
                 content = content msg\<rparr>) messages"

subsection \<open>openAIStream and streamResponse\<close>

text \<open>The body of the request is \<open>JSON.stringify({...settings, messages, stream: true})\<close>,
  which leaves out a key that holds \<open>undefined\<close>: it is given by the property values. The network is
  a parameter \<open>fetch\<close>: the outcome of the connection attempt number \<open>n\<close> of the run, which
  either rejects or resolves to a response with a status and a body (every response
  is taken to carry one); the methods pass on the number of attempts made so far.
  \<open>response.ok\<close> is a status from 200 to 299.\<close>

record stream_request =
  request_settings :: settings
  request_messages :: "message list"

datatype fetch_result = FetchRejected string | Response nat "read_result list"

definition request_body :: "message list \<Rightarrow> settings \<Rightarrow> stream_request" where
  "request_body messages settings =
     \<lparr>request_settings = settings\<lparr>stream := Some True\<rparr>,
      request_messages = formatMessagesForOpenAI messages\<rparr>"

definition openAIStream ::
  "(string \<Rightarrow> json option) \<Rightarrow> (nat \<Rightarrow> stream_request \<Rightarrow> fetch_result) \<Rightarrow> nat \<Rightarrow>
   message list \<Rightarrow> settings \<Rightarrow> callback list \<times> nat"
where
  "openAIStream JSON_parse fetch attempts messages settings =
     (case fetch attempts (request_body messages settings) of
        FetchRejected why \<Rightarrow> ([OnError (Rejected why)], Suc attempts)
      | Response status reads \<Rightarrow>
        if \<not> (200 \<le> status \<and> status \<le> 299) then ([OnError (HttpError status)], Suc attempts)
        else
          (case read_loop JSON_parse [] reads of
             (cbs, None) \<Rightarrow> (cbs, Suc attempts)
           | (cbs, Some e) \<Rightarrow> (cbs @ [OnError e], Suc attempts)))"

text \<open>The class defines no method \<open>anthropicStream\<close>: calling it throws a \<open>TypeError\<close>,
  which the \<open>catch\<close> of \<open>streamResponse\<close> hands to \<open>onError\<close>.\<close>

definition streamResponse ::
  "(string \<Rightarrow> json option) \<Rightarrow> (nat \<Rightarrow> stream_request \<Rightarrow> fetch_result) \<Rightarrow> nat \<Rightarrow>
   message list \<Rightarrow> settings \<Rightarrow> callback list \<times> nat"
where
  "streamResponse JSON_parse fetch attempts messages settings =
     (let provider_name = or_string (provider settings) (provider defaultSettings) in
      if provider_name = Some ''openai'' then
        openAIStream JSON_parse fetch attempts messages settings
      else if provider_name = Some ''anthropic'' then
        ([OnError (TypeError ''this.anthropicStream is not a function'')], attempts)
      else
        ([OnError (Error (''Streaming not supported for provider: '' @ interpolate provider_name))],
         attempts))"

subsection \<open>generateResponse\<close>

text \<open>The provider SDKs are parameters: \<open>createChatCompletion\<close> and \<open>messages.create\<close> take
  the request the method builds and either throw or return; a return is given by the
  fields the method reads from it.\<close>

record openai_request =
  oa_model :: "string option"
  oa_messages :: "message list"
  oa_temperature :: "real option"
  oa_max_tokens :: "real option"
  oa_top_p :: "real option"
  oa_frequency_penalty :: "real option"
  oa_presence_penalty :: "real option"
  oa_stream :: bool

record anthropic_request =
  an_model :: "string option"
  an_messages :: "message list"
  an_temperature :: "real option"
  an_max_tokens :: "real option"
  an_top_p :: "real option"

datatype provider_call = OpenAICall openai_request | AnthropicCall anthropic_request

text \<open>What an SDK throws: an error with a \<open>response\<close> (its status, \<open>data.error?.message\<close>
  and the error's own message), an error with a \<open>request\<close> only, or any other error.\<close>

datatype sdk_error =
    ResponseError nat "string option" string
  | RequestError string
  | OtherError string

record openai_completion =
  oc_content :: string
  oc_total_tokens :: real
  oc_model :: string
  oc_finish_reason :: string

record anthropic_completion =
  ac_text :: string
  ac_input_tokens :: real
  ac_output_tokens :: real
  ac_model :: string
  ac_stop_reason :: string

record ai_response =
  response_content :: string
  response_tokens :: real
  response_model :: string
  response_finishReason :: string

definition openAIRequest ::
  "(openai_request \<Rightarrow> sdk_error + openai_completion) \<Rightarrow> message list \<Rightarrow> settings \<Rightarrow>
   provider_call list \<times> (sdk_error + ai_response)"
where
  "openAIRequest createChatCompletion messages settings =
     (let request =
        \<lparr>oa_model = model settings,
         oa_messages = formatMessagesForOpenAI messages,
         oa_temperature = temperature settings,
         oa_max_tokens = maxTokens settings,
         oa_top_p = topP settings,
         oa_frequency_penalty = frequencyPenalty settings,
         oa_presence_penalty = presencePenalty settings,
         oa_stream = False\<rparr>
      in ([OpenAICall request],
          case createChatCompletion request of
            Inl e \<Rightarrow> Inl e
          | Inr response \<Rightarrow>
            Inr \<lparr>response_content = oc_content response,
                 response_tokens = oc_total_tokens response,
                 response_model = oc_model response,
                 response_finishReason = oc_finish_reason response\<rparr>))"

definition anthropicRequest ::
  "(anthropic_request \<Rightarrow> sdk_error + anthropic_completion) \<Rightarrow> message list \<Rightarrow> settings \<Rightarrow>
   provider_call list \<times> (sdk_error + ai_response)"
where
  "anthropicRequest messages_create messages settings =
     (let request =
        \<lparr>an_model = model settings,
         an_messages = formatMessagesForAnthropic messages,
         an_temperature = temperature settings,
         an_max_tokens = maxTokens settings,
         an_top_p = topP settings\<rparr>
      in ([AnthropicCall request],
          case messages_create request of
            Inl e \<Rightarrow> Inl e
          | Inr response \<Rightarrow>
            Inr \<lparr>response_content = ac_text response,
                 response_tokens = ac_input_tokens response + ac_output_tokens response,
                 response_model = ac_model response,
                 response_finishReason = ac_stop_reason response\<rparr>))"

definition handleProviderError :: "sdk_error \<Rightarrow> string \<Rightarrow> js_error" where
  "handleProviderError error provider_name =
     (case error of
        ResponseError status data_message message \<Rightarrow>
          if status = 401 then Error (''Invalid '' @ provider_name @ '' API key'')
          else if status = 429 then Error ''Rate limit exceeded. Please try again later.''
          else if status = 500 then Error (provider_name @ '' server error. Please try again.'')
          else if status = 503 then
            Error (provider_name @ '' service unavailable. Please try again later.'')
          else Error (provider_name @ '' error: '' @ interpolate (or_string data_message (Some message)))
      | RequestError message \<Rightarrow>
          Error (''No response received from '' @ provider_name @ ''. Please check your connection.'')
      | OtherError message \<Rightarrow>
          Error (''Error configuring '' @ provider_name @ '' request: '' @ message))"

text \<open>\<open>generateResponse\<close>: the provider calls issued, and the error thrown or the response
  returned. The class defines none of \<open>cohereRequest\<close>, \<open>huggingFaceRequest\<close> and
  \<open>localRequest\<close>: calling one throws a \<open>TypeError\<close> inside the \<open>try\<close>.\<close>

definition generateResponse ::
  "(openai_request \<Rightarrow> sdk_error + openai_completion) \<Rightarrow>
   (anthropic_request \<Rightarrow> sdk_error + anthropic_completion) \<Rightarrow>
   message list \<Rightarrow> settings_object \<Rightarrow> provider_call list \<times> (js_error + ai_response)"
where
  "generateResponse createChatCompletion messages_create messages settings =
     (let finalSettings = spread defaultSettings settings;
          provider_name = provider finalSettings;
          (calls, outcome) =
            (if provider_name = Some ''openai'' then
               openAIRequest createChatCompletion messages finalSettings
             else if provider_name = Some ''anthropic'' then
               anthropicRequest messages_create messages finalSettings
             else if provider_name = Some ''cohere'' then
               ([], Inl (OtherError ''this.cohereRequest is not a function''))
             else if provider_name = Some ''huggingface'' then
               ([], Inl (OtherError ''this.huggingFaceRequest is not a function''))
             else if provider_name = Some ''local'' then
               ([], Inl (OtherError ''this.localRequest is not a function''))
             else ([], Inl (OtherError (''Unsupported provider: '' @ interpolate provider_name))))
      in (calls,
          case outcome of
            Inl e \<Rightarrow> Inl (handleProviderError e (interpolate provider_name))
          | Inr response \<Rightarrow> Inr response))"

subsection \<open>Utility methods\<close>

text \<open>\<open>text.split(/\s+/)\<close>: the segments between maximal runs of white space; a text that
  starts or ends with white space has an empty first or last segment. (The first
  branch of the inner \<open>case\<close> is never taken.)\<close>

function split_ws :: "string \<Rightarrow> string list" where
  "split_ws [] = [[]]"
| "split_ws (c # cs) =
     (if is_space c then [] # split_ws (dropWhile is_space cs)
      else (case split_ws cs of [] \<Rightarrow> [[c]] | seg # segs \<Rightarrow> (c # seg) # segs))"
  by pat_completeness auto
termination
  by (relation "measure length") (auto simp: less_Suc_eq_le length_dropWhile_le)

definition estimateTokens :: "string \<Rightarrow> int" where
  "estimateTokens text =
     (let words = length (split_ws text);
          characters = length text
      in \<lceil>(real words * 1.3 + real characters / 4) / 2\<rceil>)"

text \<open>\<open>xs.join(sep)\<close>\<close>

fun join :: "string \<Rightarrow> string list \<Rightarrow> string" where
  "join sep [] = []"
| "join sep [x] = x"
| "join sep (x # y # ys) = x @ sep @ join sep (y # ys)"

text \<open>\<open>if (n && ...)\<close> on a number that may be \<open>undefined\<close>: false for \<open>undefined\<close> and
  for 0. In the check of the model, \<open>models\<close> is truthy also when the provider's name is
  one \<open>availableModels\<close> inherits; it then has no \<open>includes\<close>, and calling it throws a
  \<open>TypeError\<close> out of the method.\<close>

definition validateSettings :: "settings \<Rightarrow> js_error + string list" where
  "validateSettings settings =
     (let errors1 =
            (case temperature settings of
               None \<Rightarrow> []
             | Some t \<Rightarrow>
               if t \<noteq> 0 \<and> (t < 0 \<or> t > 2) then [''Temperature must be between 0 and 2'']
               else []);
          errors2 =
            (case maxTokens settings of
               None \<Rightarrow> []
             | Some m \<Rightarrow>
               if m \<noteq> 0 \<and> (m < 1 \<or> m > 400000)
               then [''Max tokens must be between 1 and 400,000'']
               else [])
      in case or_string (model settings) None of
           None \<Rightarrow> Inr (errors1 @ errors2)
         | Some m \<Rightarrow>
           (case availableModels
                   (interpolate (or_string (provider settings) (provider defaultSettings))) of
              Undefined \<Rightarrow> Inr (errors1 @ errors2)
            | Inherited \<Rightarrow> Inl (TypeError ''models.includes is not a function'')
            | Own models \<Rightarrow>
              if m \<in> set models then Inr (errors1 @ errors2)
              else Inr (errors1 @ errors2 @ [''Model must be one of: '' @ join '', '' models])))"

text \<open>A number the cost estimate returns.\<close>

datatype js_number = Num real | NaN

record rates =
  "input" :: real
  "output" :: real

definition costRates :: "(real \<Rightarrow> real) \<Rightarrow> string \<Rightarrow> (string \<Rightarrow> rates property) property" where
  "costRates round_double = object_literal
     [(''openai'', object_literal
         [(''gpt-4'', \<lparr>input = round_double 0.03, output = round_double 0.06\<rparr>),
          (''gpt-4-32k'', \<lparr>input = round_double 0.06, output = round_double 0.12\<rparr>),
          (''gpt-3.5-turbo'', \<lparr>input = round_double 0.0015, output = round_double 0.002\<rparr>),
          (''gpt-3.5-turbo-16k'', \<lparr>input = round_double 0.003, output = round_double 0.004\<rparr>)]),
      (''anthropic'', object_literal
         [(''claude-3-opus'', \<lparr>input = round_double 0.015, output = round_double 0.075\<rparr>),
          (''claude-3-sonnet'', \<lparr>input = round_double 0.003, output = round_double 0.015\<rparr>),
          (''claude-2.1'', \<lparr>input = round_double 0.008, output = round_double 0.024\<rparr>)])]"

text \<open>\<open>costRates[provider]?.[model]\<close>. When the provider's name is one \<open>costRates\<close>
  inherits, the model is looked up in a built-in object of the runtime: the parameter
  \<open>builtin_member\<close> tells whether that read throws or gives a truthy or a falsy value. A
  truthy value that is not a rate entry is \<open>Inherited\<close>, a falsy one \<open>Undefined\<close>.\<close>

definition rate_entry ::
  "(real \<Rightarrow> real) \<Rightarrow> (string \<Rightarrow> string \<Rightarrow> js_error + bool) \<Rightarrow> string \<Rightarrow> string \<Rightarrow>
   js_error + rates property"
where
  "rate_entry round_double builtin_member provider_name model_name =
     (case costRates round_double provider_name of
        Undefined \<Rightarrow> Inr Undefined
      | Own table \<Rightarrow> Inr (table model_name)
      | Inherited \<Rightarrow>
        (case builtin_member provider_name model_name of
           Inl e \<Rightarrow> Inl e
         | Inr is_truthy \<Rightarrow> Inr (if is_truthy then Inherited else Undefined)))"

text \<open>\<open>estimateCost\<close>. \<open>!rates\<close> holds for \<open>undefined\<close> only; an inherited value passes it,
  its \<open>input\<close> and \<open>output\<close> are \<open>undefined\<close>, and the products and their sum are \<open>NaN\<close>.
  The token counts are finite numbers.\<close>

definition estimateCost ::
  "(real \<Rightarrow> real) \<Rightarrow> (string \<Rightarrow> string \<Rightarrow> js_error + bool) \<Rightarrow> string \<Rightarrow> string \<Rightarrow>
   real \<Rightarrow> real \<Rightarrow> js_error + js_number"
where
  "estimateCost round_double builtin_member provider_name model_name inputTokens outputTokens =
     (case rate_entry round_double builtin_member provider_name model_name of
        Inl e \<Rightarrow> Inl e
      | Inr Undefined \<Rightarrow> Inr (Num 0)
      | Inr Inherited \<Rightarrow> Inr NaN
      | Inr (Own rates) \<Rightarrow>
        (let inputCost = round_double (round_double (inputTokens / 1000) * input rates);
             outputCost = round_double (round_double (outputTokens / 1000) * output rates)
         in Inr (Num (round_double (inputCost + outputCost)))))"

subsection \<open>The token estimate in the words of the specification\<close>

text \<open>The number of maximal runs of white space in a text: a run ends where a white
  space character is followed by another character or by the end of the text.\<close>

fun whitespace_runs :: "string \<Rightarrow> nat" where
  "whitespace_runs [] = 0"
| "whitespace_runs [c] = (if is_space c then 1 else 0)"
| "whitespace_runs (c # d # cs) =
     (if is_space c \<and> \<not> is_space d then 1 else 0) + whitespace_runs (d # cs)"

text \<open>The specification's \<open>wordCount\<close>, the number of whitespace-separated segments (one
  more than the number of separators), and its \<open>charCount\<close>.\<close>

definition wordCount :: "string \<Rightarrow> nat" where
  "wordCount text = Suc (whitespace_runs text)"

definition charCount :: "string \<Rightarrow> nat" where
  "charCount text = length text"

subsection \<open>Concrete inputs\<close>

text \<open>The value of the record \<open>{"choices":[{"delta":{"content":s}}]}\<close>.\<close>

definition delta_record :: "string \<Rightarrow> json" where
  "delta_record s =
     JObj [(''choices'', JArr [JObj [(''delta'', JObj [(''content'', JStr s)])]])]"

definition record_Hel :: string where
  \<open>record_Hel = ''data: {"choices":[{"delta":{"content":"Hel"}}]}''\<close>

definition record_lo :: string where
  \<open>record_lo = ''data: {"choices":[{"delta":{"content":"lo"}}]}''\<close>

text \<open>A record cut short: its payload is not JSON.\<close>

definition record_broken :: string where
  \<open>record_broken = ''data: {"choices":[{"delta":''\<close>

text \<open>\<open>JSON.parse\<close> on the payloads of the three records above: the two values, and a
  \<open>SyntaxError\<close> for the payload cut short. The runs below parse nothing else.\<close>

definition JSON_parse_records :: "string \<Rightarrow> json option" where
  \<open>JSON_parse_records s =
     (if s = ''{"choices":[{"delta":{"content":"Hel"}}]}'' then Some (delta_record ''Hel'')
      else if s = ''{"choices":[{"delta":{"content":"lo"}}]}'' then Some (delta_record ''lo'')
      else None)\<close>

text \<open>A response in the framing of server-sent events: every record is followed by a
  blank line, and the sentinel \<open>data: [DONE]\<close> ends the stream.\<close>

definition sse_body :: string where
  "sse_body =
     record_Hel @ [CHR 0x0A, CHR 0x0A] @ record_lo @ [CHR 0x0A, CHR 0x0A] @
     ''data: [DONE]'' @ [CHR 0x0A, CHR 0x0A]"

definition no_settings :: settings where
  "no_settings =
     \<lparr>provider = None, model = None, temperature = None, maxTokens = None, topP = None,
      frequencyPenalty = None, presencePenalty = None, stream = None\<rparr>"

text \<open>The object \<open>{}\<close>.\<close>

definition empty_object :: settings_object where
  "empty_object =
     \<lparr>own_provider = Absent, own_model = Absent, own_temperature = Absent,
      own_maxTokens = Absent, own_topP = Absent, own_frequencyPenalty = Absent,
      own_presencePenalty = Absent, own_stream = Absent\<rparr>"

text \<open>\<open>{temperature: 2.5, maxTokens: 500000}\<close>\<close>

definition hot_object :: settings_object where
  "hot_object =
     empty_object\<lparr>own_temperature := Present (Some 2.5), own_maxTokens := Present (Some 500000)\<rparr>"

text \<open>\<open>{provider: 'constructor', model: 'gpt-4', temperature: 2.5}\<close>\<close>

definition inherited_provider_object :: settings_object where
  "inherited_provider_object =
     empty_object\<lparr>own_provider := Present (Some ''constructor''),
       own_model := Present (Some ''gpt-4''), own_temperature := Present (Some 2.5)\<rparr>"

definition sse_fetch :: "nat \<Rightarrow> stream_request \<Rightarrow> fetch_result" where
  "sse_fetch n request = Response 200 [Value sse_body]"

text \<open>A response whose body ends after one record, with no sentinel.\<close>

definition cut_fetch :: "nat \<Rightarrow> stream_request \<Rightarrow> fetch_result" where
  "cut_fetch n request = Response 200 [Value (record_Hel @ [CHR 0x0A])]"

text \<open>A network that refuses the first two connection attempts and answers the third.\<close>

definition flaky_fetch :: "nat \<Rightarrow> stream_request \<Rightarrow> fetch_result" where
  "flaky_fetch n request =
     (if n < 2 then FetchRejected ''ECONNRESET''
      else Response 200 [Value (''data: [DONE]'' @ [CHR 0x0A])])"

text \<open>A provider that answers every attempt with the status 401.\<close>

definition unauthorized_fetch :: "nat \<Rightarrow> stream_request \<Rightarrow> fetch_result" where
  "unauthorized_fetch n request = Response 401 []"

definition hello :: "message list" where
  "hello = [\<lparr>role = ''system'', content = ''Be brief.''\<rparr>,
            \<lparr>role = ''user'', content = ''Hi''\<rparr>,
            \<lparr>role = ''assistant'', content = ''Hello!''\<rparr>,
            \<lparr>role = ''tool'', content = ''42''\<rparr>]"

definition stub_createChatCompletion :: "openai_request \<Rightarrow> sdk_error + openai_completion" where
  "stub_createChatCompletion request =
     Inr \<lparr>oc_content = ''Hello!'', oc_total_tokens = 12, oc_model = ''gpt-3.5-turbo'',
          oc_finish_reason = ''stop''\<rparr>"

definition stub_messages_create :: "anthropic_request \<Rightarrow> sdk_error + anthropic_completion" where
  "stub_messages_create request =
     Inr \<lparr>ac_text = ''Hello!'', ac_input_tokens = 8, ac_output_tokens = 4,
          ac_model = ''claude-2.1'', ac_stop_reason = ''end_turn''\<rparr>"

section \<open>Properties\<close>

subsection \<open>Lines and chunks\<close>

lemma split_nl_nonempty: "split_nl s \<noteq> []"
  by (induction s) (auto split: list.splits)

lemma split_nl_append:
  "split_nl (a @ b) =
     butlast (split_nl a) @ (last (split_nl a) @ hd (split_nl b)) # tl (split_nl b)"
proof (induction a)
  case Nil
  show ?case using split_nl_nonempty [of b] by simp
next
  case (Cons c a)
  obtain s ss where S: "split_nl a = s # ss"
    using split_nl_nonempty [of a] by (cases "split_nl a") auto
  show ?case
  proof (cases "c = CHR 0x0A")
    case True
    then show ?thesis using Cons S by simp
  next
    case False
    show ?thesis
    proof (cases ss)
      case Nil
      then show ?thesis using Cons S False by simp
    next
      case (Cons t ts)
      then show ?thesis using Cons.IH S False by simp
    qed
  qed
qed

lemma split_nl_no_nl: "CHR 0x0A \<notin> set s \<Longrightarrow> split_nl s = [s]"
  by (induction s) auto

lemma last_split_nl_no_nl: "CHR 0x0A \<notin> set (last (split_nl s))"
proof (induction s)
  case Nil
  show ?case by simp
next
  case (Cons c s)
  obtain t ts where S: "split_nl s = t # ts"
    using split_nl_nonempty [of s] by (cases "split_nl s") auto
  show ?case using Cons S by (cases ts) auto
qed

text \<open>What follows the last line feed is carried into the next read.\<close>

lemma split_nl_carry:
  "split_nl (a @ b) = butlast (split_nl a) @ split_nl (last (split_nl a) @ b)"
proof -
  have "split_nl (last (split_nl a) @ b) =
          (last (split_nl a) @ hd (split_nl b)) # tl (split_nl b)"
    using split_nl_append [of "last (split_nl a)" b]
      split_nl_no_nl [OF last_split_nl_no_nl [of a]]
    by simp
  then show ?thesis using split_nl_append [of a b] by simp
qed

lemma split_nl_line:
  "CHR 0x0A \<notin> set line \<Longrightarrow> split_nl (line @ CHR 0x0A # rest) = line # split_nl rest"
  by (induction line) auto

lemma last_split_nl_complete:
  "s = [] \<or> last s = CHR 0x0A \<Longrightarrow> last (split_nl s) = []"
proof (cases "s = []")
  case True
  then show ?thesis by simp
next
  case False
  assume "s = [] \<or> last s = CHR 0x0A"
  with False have "s = butlast s @ [CHR 0x0A]"
    by (metis append_butlast_last_id)
  then have "split_nl s = butlast (split_nl (butlast s)) @ [last (split_nl (butlast s)), []]"
    using split_nl_append [of "butlast s" "[CHR 0x0A]"] by simp
  then show ?thesis by simp
qed

lemma for_lines_append:
  "for_lines p (xs @ ys) =
     (case for_lines p xs of
        (cbs, True) \<Rightarrow> (cbs, True)
      | (cbs, False) \<Rightarrow> (case for_lines p ys of (rest, r) \<Rightarrow> (cbs @ rest, r)))"
  by (induction xs) (auto split: line_result.splits prod.splits bool.splits)

lemma for_lines_skip:
  "handle_line p line = Next [] \<Longrightarrow> for_lines p (xs @ line # ys) = for_lines p (xs @ ys)"
  by (simp add: for_lines_append split: prod.splits bool.splits)

lemma read_loop_chunks:
  "CHR 0x0A \<notin> set buffer \<Longrightarrow>
   read_loop p buffer (map Value chunks @ reads) =
   read_loop p buffer (Value (concat chunks) # reads)"
proof (induction chunks arbitrary: buffer)
  case Nil
  then show ?case by (simp add: split_nl_no_nl)
next
  case (Cons c cs)
  let ?lines = "split_nl (buffer @ c)"
  let ?carry = "last ?lines"
  let ?lines2 = "split_nl (?carry @ concat cs)"
  have carry: "CHR 0x0A \<notin> set ?carry" by (rule last_split_nl_no_nl)
  have IH: "read_loop p ?carry (map Value cs @ reads) =
            read_loop p ?carry (Value (concat cs) # reads)"
    by (rule Cons.IH [OF carry])
  have whole: "split_nl (buffer @ c @ concat cs) = butlast ?lines @ ?lines2"
    using split_nl_carry [of "buffer @ c" "concat cs"] by simp
  have ne: "?lines2 \<noteq> []" by (rule split_nl_nonempty)
  have bl: "butlast (split_nl (buffer @ c @ concat cs)) = butlast ?lines @ butlast ?lines2"
    using whole ne by (simp add: butlast_append)
  have la: "last (split_nl (buffer @ c @ concat cs)) = last ?lines2"
    using whole ne by simp
  show ?case
    by (simp add: IH bl la for_lines_append Let_def split: prod.splits bool.splits)
qed

text \<open>C4. Whatever the boundaries between the chunks the reader delivers, the loop
  makes the callbacks it makes on the whole text delivered as one chunk, whatever is
  read afterwards.\<close>

theorem chunk_boundary_independence:
  "read_loop JSON_parse [] (map Value chunks @ reads) =
   read_loop JSON_parse [] (Value (concat chunks) # reads)"
  by (rule read_loop_chunks) simp

text \<open>C9. A line that starts with \<open>data: \<close>, is not the sentinel and whose payload
  \<open>JSON.parse\<close> rejects makes no callback and does not end the loop: the run on a stream
  that holds such a line, whole, is the run on the stream without it, so no record
  before or after it is lost and no error is reported for it.\<close>

theorem malformed_record_skipped:
  assumes "CHR 0x0A \<notin> set line"
    and "startsWith (trim line) ''data: ''"
    and "trim line \<noteq> ''data: [DONE]''"
    and "JSON_parse (drop 6 (trim line)) = None"
    and "earlier = [] \<or> last earlier = CHR 0x0A"
    and "concat chunks = earlier @ line @ [CHR 0x0A] @ later"
    and "concat chunks' = earlier @ later"
  shows "handle_line JSON_parse line = Next [] \<and>
         read_loop JSON_parse [] (map Value chunks @ reads) =
         read_loop JSON_parse [] (map Value chunks' @ reads)"
proof -
  have "trim line \<noteq> []"
    using assms(2) by (auto simp: startsWith_def)
  then have skip: "handle_line JSON_parse line = Next []"
    using assms(2,3,4) by (simp add: handle_line_def)
  let ?B = "butlast (split_nl earlier)"
  have carry: "last (split_nl earlier) = []"
    by (rule last_split_nl_complete [OF assms(5)])
  have with_line: "split_nl (concat chunks) = ?B @ line # split_nl later"
    using split_nl_carry [of earlier "line @ [CHR 0x0A] @ later"] carry assms(1,6)
    by (simp add: split_nl_line)
  have without: "split_nl (concat chunks') = ?B @ split_nl later"
    using split_nl_carry [of earlier later] carry assms(7) by simp
  have ne: "split_nl later \<noteq> []" by (rule split_nl_nonempty)
  have b1: "butlast (split_nl (concat chunks)) = ?B @ line # butlast (split_nl later)"
    using with_line ne by (simp add: butlast_append)
  have b2: "butlast (split_nl (concat chunks')) = ?B @ butlast (split_nl later)"
    using without ne by (simp add: butlast_append)
  have l1: "last (split_nl (concat chunks)) = last (split_nl later)"
    using with_line ne by simp
  have l2: "last (split_nl (concat chunks')) = last (split_nl later)"
    using without ne by simp
  have "read_loop JSON_parse [] (Value (concat chunks) # reads) =
        read_loop JSON_parse [] (Value (concat chunks') # reads)"
    by (simp add: b1 b2 l1 l2 for_lines_skip [OF skip])
  then have "read_loop JSON_parse [] (map Value chunks @ reads) =
             read_loop JSON_parse [] (map Value chunks' @ reads)"
    by (simp add: read_loop_chunks)
  with skip show ?thesis by simp
qed

theorem malformed_record_skipped_witness:
  "CHR 0x0A \<notin> set record_broken \<and>
   startsWith (trim record_broken) ''data: '' \<and>
   trim record_broken \<noteq> ''data: [DONE]'' \<and>
   JSON_parse_records (drop 6 (trim record_broken)) = None \<and>
   last (record_Hel @ [CHR 0x0A]) = CHR 0x0A \<and>
   handle_line JSON_parse_records record_broken = Next [] \<and>
   read_loop JSON_parse_records []
     (map Value [record_Hel @ [CHR 0x0A] @ take 9 record_broken,
                 drop 9 record_broken @ [CHR 0x0A] @ record_lo,
                 [CHR 0x0A] @ ''data: [DONE]'' @ [CHR 0x0A]] @ []) =
   read_loop JSON_parse_records []
     (map Value [record_Hel @ [CHR 0x0A], record_lo @ [CHR 0x0A] @ ''data: [DONE]'' @ [CHR 0x0A]] @ []) \<and>
   read_loop JSON_parse_records []
     (map Value [record_Hel @ [CHR 0x0A], record_lo @ [CHR 0x0A] @ ''data: [DONE]'' @ [CHR 0x0A]] @ []) =
   ([OnChunk (JStr ''Hel''), OnChunk (JStr ''lo''), OnComplete], None)"
proof -
  have h1: "CHR 0x0A \<notin> set record_broken"
    by (simp add: record_broken_def)
  have t: "trim record_broken = record_broken"
    by (simp add: record_broken_def trim_def is_space_def)
  have h2: "startsWith (trim record_broken) ''data: ''"
    by (simp add: t) (simp add: record_broken_def startsWith_def)
  have h3: "trim record_broken \<noteq> ''data: [DONE]''"
    by (simp add: t) (simp add: record_broken_def)
  have h4: "JSON_parse_records (drop 6 (trim record_broken)) = None"
    by (simp add: t) (simp add: record_broken_def JSON_parse_records_def)
  have h5: "record_Hel @ [CHR 0x0A] = [] \<or> last (record_Hel @ [CHR 0x0A]) = CHR 0x0A"
    by simp
  have h6: "concat [record_Hel @ [CHR 0x0A] @ take 9 record_broken,
                    drop 9 record_broken @ [CHR 0x0A] @ record_lo,
                    [CHR 0x0A] @ ''data: [DONE]'' @ [CHR 0x0A]] =
            (record_Hel @ [CHR 0x0A]) @ record_broken @ [CHR 0x0A] @
            (record_lo @ [CHR 0x0A] @ ''data: [DONE]'' @ [CHR 0x0A])"
    using append_take_drop_id [of 9 record_broken, symmetric] by simp
  have h7: "concat [record_Hel @ [CHR 0x0A], record_lo @ [CHR 0x0A] @ ''data: [DONE]'' @ [CHR 0x0A]] =
            (record_Hel @ [CHR 0x0A]) @ (record_lo @ [CHR 0x0A] @ ''data: [DONE]'' @ [CHR 0x0A])"
    by simp
  have run: "read_loop JSON_parse_records []
     (map Value [record_Hel @ [CHR 0x0A], record_lo @ [CHR 0x0A] @ ''data: [DONE]'' @ [CHR 0x0A]] @ []) =
     ([OnChunk (JStr ''Hel''), OnChunk (JStr ''lo''), OnComplete], None)"
    by (simp add: record_Hel_def record_lo_def handle_line_def trim_def is_space_def
        startsWith_def JSON_parse_records_def delta_record_def delta_content_def)
  show ?thesis
    using malformed_record_skipped
      [where line = record_broken and JSON_parse = JSON_parse_records
         and earlier = "record_Hel @ [CHR 0x0A]"
         and later = "record_lo @ [CHR 0x0A] @ ''data: [DONE]'' @ [CHR 0x0A]"
         and reads = "[]", OF h1 h2 h3 h4 h5 h6 h7]
      h1 h2 h3 h4 run
    by simp
qed

subsection \<open>The token estimate\<close>

lemma split_ws_nonempty: "split_ws s \<noteq> []"
  by (induction s rule: split_ws.induct) (auto split: list.splits)

lemma whitespace_runs_space:
  "is_space c \<Longrightarrow> whitespace_runs (c # cs) = Suc (whitespace_runs (dropWhile is_space cs))"
proof (induction cs arbitrary: c)
  case Nil
  then show ?case by simp
next
  case (Cons d ds)
  then show ?case by (cases "is_space d") simp_all
qed

lemma whitespace_runs_other:
  "\<not> is_space c \<Longrightarrow> whitespace_runs (c # cs) = whitespace_runs cs"
  by (cases cs) simp_all

text \<open>\<open>text.split(/\s+/).length\<close> is the number of whitespace-separated segments.\<close>

lemma length_split_ws: "length (split_ws s) = wordCount s"
proof (induction s rule: split_ws.induct)
  case 1
  show ?case by (simp add: wordCount_def)
next
  case (2 c cs)
  show ?case
  proof (cases "is_space c")
    case True
    then show ?thesis using 2(1) by (simp add: wordCount_def whitespace_runs_space)
  next
    case False
    obtain seg segs where S: "split_ws cs = seg # segs"
      using split_ws_nonempty [of cs] by (cases "split_ws cs") auto
    show ?thesis using False 2(2) S by (simp add: wordCount_def whitespace_runs_other)
  qed
qed

text \<open>C7. \<open>estimateTokens(text)\<close> is the integer \<open>ceil((wordCount * 1.3 + charCount / 4) / 2)\<close>,
  where \<open>wordCount\<close> is the number of whitespace-separated segments of the text (empty
  segments before leading and after trailing white space included) and \<open>charCount\<close> is
  its length.\<close>

theorem estimateTokens_formula:
  "estimateTokens text = \<lceil>(real (wordCount text) * 1.3 + real (charCount text) / 4) / 2\<rceil>"
  by (simp add: estimateTokens_def length_split_ws charCount_def)

subsection \<open>Roles for Anthropic\<close>

text \<open>C8. \<open>formatMessagesForAnthropic\<close> returns as many messages as it is given, in the
  same order: each keeps its content, keeps the role \<open>assistant\<close>, and gets the role
  \<open>user\<close> in place of any other role.\<close>

theorem formatMessagesForAnthropic_roles:
  "length (formatMessagesForAnthropic messages) = length messages \<and>
   (\<forall>i < length messages.
      content (formatMessagesForAnthropic messages ! i) = content (messages ! i) \<and>
      role (formatMessagesForAnthropic messages ! i) =
        (if role (messages ! i) = ''assistant'' then ''assistant'' else ''user''))"
  by (simp add: formatMessagesForAnthropic_def)

theorem formatMessagesForAnthropic_roles_witness:
  "(2::nat) < length hello \<and>
   length (formatMessagesForAnthropic hello) = 4 \<and>
   content (formatMessagesForAnthropic hello ! 2) = ''Hello!'' \<and>
   role (formatMessagesForAnthropic hello ! 2) = ''assistant'' \<and>
   (3::nat) < length hello \<and>
   content (formatMessagesForAnthropic hello ! 3) = ''42'' \<and>
   role (formatMessagesForAnthropic hello ! 3) = ''user''"
proof -
  have len: "length hello = 4" by (simp add: hello_def)
  have m2: "hello ! 2 = \<lparr>role = ''assistant'', content = ''Hello!''\<rparr>"
    by (simp add: hello_def)
  have m3: "hello ! 3 = \<lparr>role = ''tool'', content = ''42''\<rparr>"
    by (simp add: hello_def)
  from formatMessagesForAnthropic_roles [of hello] have
    all: "\<forall>i < length hello.
      content (formatMessagesForAnthropic hello ! i) = content (hello ! i) \<and>
      role (formatMessagesForAnthropic hello ! i) =
        (if role (hello ! i) = ''assistant'' then ''assistant'' else ''user'')"
    and l: "length (formatMessagesForAnthropic hello) = length hello"
    by simp_all
  from all len have "content (formatMessagesForAnthropic hello ! 2) = content (hello ! 2)"
    and "role (formatMessagesForAnthropic hello ! 2) =
         (if role (hello ! 2) = ''assistant'' then ''assistant'' else ''user'')"
    and "content (formatMessagesForAnthropic hello ! 3) = content (hello ! 3)"
    and "role (formatMessagesForAnthropic hello ! 3) =
         (if role (hello ! 3) = ''assistant'' then ''assistant'' else ''user'')"
    by simp_all
  with len l m2 m3 show ?thesis by simp
qed

subsection \<open>The cost estimate\<close>

text \<open>What the estimate does where the lookup finds a rate entry or finds nothing: the
  formula of the source in the arithmetic of doubles, and 0.\<close>

lemma estimateCost_entries:
  "(costRates round_double provider_name = Own table \<and> table model_name = Own r \<longrightarrow>
      estimateCost round_double builtin_member provider_name model_name inputTokens outputTokens =
        Inr (Num (round_double
          (round_double (round_double (inputTokens / 1000) * input r) +
           round_double (round_double (outputTokens / 1000) * output r))))) \<and>
   (costRates round_double provider_name = Undefined \<or>
    (costRates round_double provider_name = Own table \<and> table model_name = Undefined) \<longrightarrow>
      estimateCost round_double builtin_member provider_name model_name inputTokens outputTokens =
        Inr (Num 0))"
  by (auto simp: estimateCost_def rate_entry_def)

lemma rate_entry_gpt_3_5_turbo:
  "rate_entry round_double builtin_member ''openai'' ''gpt-3.5-turbo'' =
     Inr (Own \<lparr>input = round_double 0.0015, output = round_double 0.002\<rparr>)"
  by (simp add: rate_entry_def costRates_def object_literal_def)

lemma rate_entry_unknown_model:
  "rate_entry round_double builtin_member ''openai'' ''gpt-5'' = Inr Undefined"
  by (simp add: rate_entry_def costRates_def object_literal_def object_prototype_keys_def)

text \<open>C6 at a model name the rate table has no entry for but inherits from
  \<open>Object.prototype\<close>. \<open>costRates.openai['toString']\<close> is a function, so \<open>!rates\<close> is false
  and the method does not return 0: it multiplies by the \<open>undefined\<close> \<open>rates.input\<close> and
  \<open>rates.output\<close> and returns \<open>NaN\<close>.\<close>

theorem estimateCost_inherited_name:
  "estimateCost round_double builtin_member ''openai'' ''toString'' 1000 500 = Inr NaN"
  by (simp add: estimateCost_def rate_entry_def costRates_def object_literal_def
      object_prototype_keys_def)

subsection \<open>Validation of settings\<close>

text \<open>C3, as the code has it. For a settings object with a temperature below 0 or
  above 2, or a \<open>maxTokens\<close> other than 0 below 1 or above 400000, \<open>validateSettings\<close>
  returns a list that holds the message of the bound, unless it throws; it throws
  only the \<open>TypeError\<close> of the model check at a provider name that \<open>availableModels\<close>
  inherits. \<open>generateResponse\<close> does not call it: when the provider key is absent or
  holds \<open>openai\<close>, the request goes to the provider with the temperature and \<open>maxTokens\<close>
  of the spread settings, whatever they are.\<close>

theorem validateSettings_reports_out_of_range:
  "(temperature (property_values obj) = Some t \<and> (t < 0 \<or> 2 < t) \<longrightarrow>
      validateSettings (property_values obj) =
        Inl (TypeError ''models.includes is not a function'') \<or>
      (\<exists>errors. validateSettings (property_values obj) = Inr errors \<and>
         ''Temperature must be between 0 and 2'' \<in> set errors)) \<and>
   (maxTokens (property_values obj) = Some m \<and> m \<noteq> 0 \<and> (m < 1 \<or> 400000 < m) \<longrightarrow>
      validateSettings (property_values obj) =
        Inl (TypeError ''models.includes is not a function'') \<or>
      (\<exists>errors. validateSettings (property_values obj) = Inr errors \<and>
         ''Max tokens must be between 1 and 400,000'' \<in> set errors)) \<and>
   (validateSettings (property_values obj) = Inl e \<longrightarrow>
      e = TypeError ''models.includes is not a function'' \<and>
      or_string (model (property_values obj)) None \<noteq> None \<and>
      availableModels
        (interpolate (or_string (provider (property_values obj)) (provider defaultSettings))) =
        Inherited) \<and>
   (own_provider obj = Absent \<or> own_provider obj = Present (Some ''openai'') \<longrightarrow>
      (\<exists>request.
         fst (generateResponse createChatCompletion messages_create messages obj) =
           [OpenAICall request] \<and>
         oa_temperature request = spread_field (Some 0.7) (own_temperature obj) \<and>
         oa_max_tokens request = spread_field (Some 2000) (own_maxTokens obj)))"
proof (intro conjI impI)
  assume "temperature (property_values obj) = Some t \<and> (t < 0 \<or> 2 < t)"
  then show "validateSettings (property_values obj) =
        Inl (TypeError ''models.includes is not a function'') \<or>
      (\<exists>errors. validateSettings (property_values obj) = Inr errors \<and>
         ''Temperature must be between 0 and 2'' \<in> set errors)"
    by (auto simp: validateSettings_def Let_def split: option.splits property.splits)
next
  assume "maxTokens (property_values obj) = Some m \<and> m \<noteq> 0 \<and> (m < 1 \<or> 400000 < m)"
  then show "validateSettings (property_values obj) =
        Inl (TypeError ''models.includes is not a function'') \<or>
      (\<exists>errors. validateSettings (property_values obj) = Inr errors \<and>
         ''Max tokens must be between 1 and 400,000'' \<in> set errors)"
    by (auto simp: validateSettings_def Let_def split: option.splits property.splits)
next
  assume thrown: "validateSettings (property_values obj) = Inl e"
  then show "e = TypeError ''models.includes is not a function''"
    by (auto simp: validateSettings_def Let_def split: option.splits property.splits if_splits)
  from thrown show "or_string (model (property_values obj)) None \<noteq> None"
    by (auto simp: validateSettings_def Let_def split: option.splits property.splits if_splits)
  from thrown show "availableModels
        (interpolate (or_string (provider (property_values obj)) (provider defaultSettings))) =
        Inherited"
    by (auto simp: validateSettings_def Let_def split: option.splits property.splits if_splits)
next
  assume "own_provider obj = Absent \<or> own_provider obj = Present (Some ''openai'')"
  then have "provider (spread defaultSettings obj) = Some ''openai''"
    by (auto simp: spread_def defaultSettings_def)
  then show "\<exists>request.
         fst (generateResponse createChatCompletion messages_create messages obj) =
           [OpenAICall request] \<and>
         oa_temperature request = spread_field (Some 0.7) (own_temperature obj) \<and>
         oa_max_tokens request = spread_field (Some 2000) (own_maxTokens obj)"
    by (simp add: generateResponse_def openAIRequest_def Let_def)
      (simp add: spread_def defaultSettings_def)
qed

theorem validateSettings_reports_out_of_range_witness:
  "temperature (property_values hot_object) = Some 2.5 \<and>
   (2::real) < 2.5 \<and>
   maxTokens (property_values hot_object) = Some 500000 \<and>
   (400000::real) < 500000 \<and>
   validateSettings (property_values hot_object) =
     Inr [''Temperature must be between 0 and 2'', ''Max tokens must be between 1 and 400,000''] \<and>
   own_provider hot_object = Absent \<and>
   (\<exists>request.
      fst (generateResponse stub_createChatCompletion stub_messages_create hello hot_object) =
        [OpenAICall request] \<and>
      oa_temperature request = Some 2.5 \<and> oa_max_tokens request = Some 500000) \<and>
   validateSettings (property_values inherited_provider_object) =
     Inl (TypeError ''models.includes is not a function'') \<and>
   or_string (model (property_values inherited_provider_object)) None \<noteq> None \<and>
   availableModels
     (interpolate (or_string (provider (property_values inherited_provider_object))
        (provider defaultSettings))) = Inherited"
proof -
  have v: "validateSettings (property_values hot_object) =
     Inr [''Temperature must be between 0 and 2'', ''Max tokens must be between 1 and 400,000'']"
    by (simp add: validateSettings_def hot_object_def empty_object_def property_values_def)
  have w: "validateSettings (property_values inherited_provider_object) =
     Inl (TypeError ''models.includes is not a function'')"
    by (simp add: validateSettings_def inherited_provider_object_def empty_object_def
        property_values_def availableModels_def object_literal_def object_prototype_keys_def)
  have p: "own_provider hot_object = Absent" "own_temperature hot_object = Present (Some 2.5)"
    "own_maxTokens hot_object = Present (Some 500000)"
    by (simp_all add: hot_object_def empty_object_def)
  have r: "temperature (property_values hot_object) = Some 2.5"
    "maxTokens (property_values hot_object) = Some 500000"
    by (simp_all add: property_values_def p)
  show ?thesis
    using validateSettings_reports_out_of_range
      [of hot_object "2.5" "500000" _ stub_createChatCompletion stub_messages_create hello]
      validateSettings_reports_out_of_range
      [of inherited_provider_object _ _ "TypeError ''models.includes is not a function''"]
      v w p r
    by simp
qed

text \<open>The claim C3 as it is written fails: with a temperature of 2.5, which
  \<open>validateSettings\<close> reports, \<open>generateResponse\<close> issues the provider request and returns
  the provider's answer.\<close>

theorem generateResponse_does_not_validate:
  "validateSettings (property_values (empty_object\<lparr>own_temperature := Present (Some 2.5)\<rparr>)) =
     Inr [''Temperature must be between 0 and 2''] \<and>
   generateResponse stub_createChatCompletion stub_messages_create hello
     (empty_object\<lparr>own_temperature := Present (Some 2.5)\<rparr>) =
     ([OpenAICall
         \<lparr>oa_model = Some ''gpt-3.5-turbo'', oa_messages = hello, oa_temperature = Some 2.5,
          oa_max_tokens = Some 2000, oa_top_p = Some 1, oa_frequency_penalty = Some 0,
          oa_presence_penalty = Some 0, oa_stream = False\<rparr>],
      Inr \<lparr>response_content = ''Hello!'', response_tokens = 12,
           response_model = ''gpt-3.5-turbo'', response_finishReason = ''stop''\<rparr>)"
proof -
  have v: "validateSettings (property_values (empty_object\<lparr>own_temperature := Present (Some 2.5)\<rparr>)) =
           Inr [''Temperature must be between 0 and 2'']"
    by (simp add: validateSettings_def empty_object_def property_values_def)
  have f: "formatMessagesForOpenAI hello = hello"
    by (simp add: formatMessagesForOpenAI_def hello_def)
  have g: "generateResponse stub_createChatCompletion stub_messages_create hello
     (empty_object\<lparr>own_temperature := Present (Some 2.5)\<rparr>) =
     ([OpenAICall
         \<lparr>oa_model = Some ''gpt-3.5-turbo'', oa_messages = hello, oa_temperature = Some 2.5,
          oa_max_tokens = Some 2000, oa_top_p = Some 1, oa_frequency_penalty = Some 0,
          oa_presence_penalty = Some 0, oa_stream = False\<rparr>],
      Inr \<lparr>response_content = ''Hello!'', response_tokens = 12,
           response_model = ''gpt-3.5-turbo'', response_finishReason = ''stop''\<rparr>)"
    by (simp add: generateResponse_def openAIRequest_def Let_def spread_def defaultSettings_def
        empty_object_def stub_createChatCompletion_def f)
  from v g show ?thesis by simp
qed

text \<open>A key that holds \<open>undefined\<close> replaces the default: with \<open>{provider: undefined}\<close> no
  provider is called and the method throws.\<close>

lemma generateResponse_provider_undefined:
  "generateResponse createChatCompletion messages_create messages
     (empty_object\<lparr>own_provider := Present None\<rparr>) =
     ([], Inl (Error ''Error configuring undefined request: Unsupported provider: undefined''))"
  by (simp add: generateResponse_def Let_def spread_def defaultSettings_def empty_object_def
      handleProviderError_def)

text \<open>C10. A \<open>maxTokens\<close> of 0 is validated as an absent \<open>maxTokens\<close> is, so that settings
  whose other fields raise no error are accepted with it; a temperature of 0 is
  validated as an absent temperature is: neither is checked against its range.\<close>

theorem validateSettings_zero_unchecked:
  "(maxTokens s = Some 0 \<and> validateSettings (s\<lparr>maxTokens := None\<rparr>) = Inr [] \<longrightarrow>
      validateSettings s = Inr []) \<and>
   validateSettings (s\<lparr>maxTokens := Some 0\<rparr>) = validateSettings (s\<lparr>maxTokens := None\<rparr>) \<and>
   validateSettings (s\<lparr>temperature := Some 0\<rparr>) = validateSettings (s\<lparr>temperature := None\<rparr>)"
proof -
  have tokens: "validateSettings (s\<lparr>maxTokens := Some 0\<rparr>) = validateSettings (s\<lparr>maxTokens := None\<rparr>)"
    for s by (simp add: validateSettings_def cong: option.case_cong)
  have temp: "validateSettings (s\<lparr>temperature := Some 0\<rparr>) = validateSettings (s\<lparr>temperature := None\<rparr>)"
    by (simp add: validateSettings_def cong: option.case_cong)
  have "validateSettings s = Inr []"
    if "maxTokens s = Some 0" and "validateSettings (s\<lparr>maxTokens := None\<rparr>) = Inr []"
  proof -
    from that(1) have "s = s\<lparr>maxTokens := Some 0\<rparr>" by simp
    then have "validateSettings s = validateSettings (s\<lparr>maxTokens := None\<rparr>)"
      using tokens [of s] by simp
    with that(2) show ?thesis by simp
  qed
  with tokens temp show ?thesis by blast
qed

theorem validateSettings_zero_unchecked_witness:
  "maxTokens (defaultSettings\<lparr>maxTokens := Some 0\<rparr>) = Some 0 \<and>
   validateSettings (defaultSettings\<lparr>maxTokens := Some 0, maxTokens := None\<rparr>) = Inr [] \<and>
   validateSettings (defaultSettings\<lparr>maxTokens := Some 0\<rparr>) = Inr []"
proof -
  have rest: "validateSettings (defaultSettings\<lparr>maxTokens := Some 0, maxTokens := None\<rparr>) = Inr []"
    by (simp add: validateSettings_def defaultSettings_def availableModels_def object_literal_def)
  show ?thesis
    using validateSettings_zero_unchecked [of "defaultSettings\<lparr>maxTokens := Some 0\<rparr>"] rest
    by simp
qed

subsection \<open>Connection failures\<close>

text \<open>C5, as the code has it. A run of \<open>streamResponse\<close> makes at most one connection
  attempt, and \<open>openAIStream\<close> exactly one: when \<open>fetch\<close> rejects, or answers with a status
  outside 200 to 299, the failure goes to \<open>onError\<close> at once, and nothing is tried
  again, whatever a later attempt would have returned and whatever the kind of the
  failure.\<close>

theorem openAIStream_single_attempt:
  "snd (streamResponse JSON_parse fetch n messages settings) \<le> Suc n \<and>
   snd (openAIStream JSON_parse fetch n messages settings) = Suc n \<and>
   (fetch n (request_body messages settings) = FetchRejected why \<longrightarrow>
      openAIStream JSON_parse fetch n messages settings = ([OnError (Rejected why)], Suc n)) \<and>
   (fetch n (request_body messages settings) = Response status reads \<and>
    (status < 200 \<or> 299 < status) \<longrightarrow>
      openAIStream JSON_parse fetch n messages settings = ([OnError (HttpError status)], Suc n))"
proof -
  have one: "snd (openAIStream JSON_parse fetch n messages settings) = Suc n"
    by (simp add: openAIStream_def split: fetch_result.splits prod.splits option.splits)
  then have "snd (streamResponse JSON_parse fetch n messages settings) \<le> Suc n"
    by (simp add: streamResponse_def Let_def)
  with one show ?thesis
    by (auto simp: openAIStream_def)
qed

theorem openAIStream_single_attempt_witness:
  "flaky_fetch 0 (request_body hello no_settings) = FetchRejected ''ECONNRESET'' \<and>
   openAIStream JSON_parse_records flaky_fetch 0 hello no_settings =
     ([OnError (Rejected ''ECONNRESET'')], Suc 0) \<and>
   unauthorized_fetch 0 (request_body hello no_settings) = Response 401 [] \<and>
   (299::nat) < 401 \<and>
   openAIStream JSON_parse_records unauthorized_fetch 0 hello no_settings =
     ([OnError (HttpError 401)], Suc 0)"
  using openAIStream_single_attempt
    [of JSON_parse_records flaky_fetch 0 hello no_settings "''ECONNRESET''"]
    openAIStream_single_attempt
    [of JSON_parse_records unauthorized_fetch 0 hello no_settings _ 401 "[]"]
  by (simp add: flaky_fetch_def unauthorized_fetch_def)

text \<open>The claim C5 as it is written fails: on a network that refuses the first two
  attempts and would answer the third, the run ends with \<open>onError\<close> after the first
  attempt and never completes.\<close>

theorem streamResponse_does_not_retry:
  "streamResponse JSON_parse_records flaky_fetch 0 hello no_settings =
     ([OnError (Rejected ''ECONNRESET'')], 1) \<and>
   flaky_fetch 2 (request_body hello no_settings) =
     Response 200 [Value (''data: [DONE]'' @ [CHR 0x0A])]"
  by (simp add: streamResponse_def openAIStream_def flaky_fetch_def no_settings_def
      defaultSettings_def)

subsection \<open>Runs that lose content or end with no terminal callback\<close>

text \<open>C1 at a response in the framing of server-sent events. The provider sends
  \<open>Hel\<close>, \<open>lo\<close> and the sentinel, each followed by a blank line. The loop takes the blank
  line after the first record for the end of the stream: it calls \<open>onComplete\<close> and
  returns, and \<open>lo\<close> never reaches \<open>onChunk\<close>.\<close>

theorem openAIStream_stops_at_blank_line:
  "streamResponse JSON_parse_records sse_fetch 0 hello no_settings =
     ([OnChunk (JStr ''Hel''), OnComplete], 1)"
  by (simp add: streamResponse_def openAIStream_def sse_fetch_def sse_body_def
      no_settings_def defaultSettings_def record_Hel_def record_lo_def
      handle_line_def trim_def is_space_def startsWith_def JSON_parse_records_def
      delta_record_def delta_content_def)

text \<open>What a run does guarantee: every callback before the last one is \<open>onChunk\<close>, so
  at most one terminal callback is made and none is followed by another callback.\<close>

lemma handle_line_chunks: "handle_line p l = Next cbs \<Longrightarrow> \<not> list_ex is_terminal cbs"
  by (auto simp: handle_line_def Let_def split: if_splits option.splits sum.splits)

lemma for_lines_shape:
  "for_lines p ls = (cbs, r) \<Longrightarrow>
     (if r then \<exists>pre. cbs = pre @ [OnComplete] \<and> \<not> list_ex is_terminal pre
      else \<not> list_ex is_terminal cbs)"
proof (induction ls arbitrary: cbs r)
  case Nil
  then show ?case by auto
next
  case (Cons l ls)
  show ?case
  proof (cases "handle_line p l")
    case Return
    with Cons.prems show ?thesis by auto
  next
    case (Next here)
    obtain rest r' where R: "for_lines p ls = (rest, r')" by (cases "for_lines p ls")
    from Cons.prems Next R have cbs: "cbs = here @ rest" and r: "r = r'" by auto
    note h = handle_line_chunks [OF Next]
    show ?thesis
    proof (cases r')
      case True
      with Cons.IH [OF R] obtain pre where "rest = pre @ [OnComplete]" "\<not> list_ex is_terminal pre"
        by auto
      with h cbs r True show ?thesis by (auto intro!: exI [of _ "here @ pre"])
    next
      case False
      with Cons.IH [OF R] h cbs r show ?thesis by auto
    qed
  qed
qed

lemma read_loop_shape:
  "read_loop p b rs = (cbs, thrown) \<Longrightarrow>
     \<not> list_ex is_terminal cbs \<or>
     (thrown = None \<and> (\<exists>pre. cbs = pre @ [OnComplete] \<and> \<not> list_ex is_terminal pre))"
proof (induction p b rs arbitrary: cbs thrown rule: read_loop.induct)
  case (1 p b)
  then show ?case by auto
next
  case (2 p b why rs)
  then show ?case by auto
next
  case (3 p b chunk rs)
  obtain here r where F: "for_lines p (butlast (split_nl (b @ chunk))) = (here, r)"
    by (cases "for_lines p (butlast (split_nl (b @ chunk)))")
  note s = for_lines_shape [OF F]
  show ?case
  proof (cases r)
    case True
    with 3(2) F have "cbs = here" "thrown = None" by (auto simp: Let_def)
    with s True show ?thesis by auto
  next
    case False
    obtain rest t where R: "read_loop p (last (split_nl (b @ chunk))) rs = (rest, t)"
      by (cases "read_loop p (last (split_nl (b @ chunk))) rs")
    from 3(2) F False R have cbs: "cbs = here @ rest" and t: "thrown = t"
      by (auto simp: Let_def)
    from 3(1) [OF refl F [symmetric] _ R] False
    have "\<not> list_ex is_terminal rest \<or>
          (t = None \<and> (\<exists>pre. rest = pre @ [OnComplete] \<and> \<not> list_ex is_terminal pre))"
      by auto
    then show ?thesis
    proof
      assume "\<not> list_ex is_terminal rest"
      with s False cbs show ?thesis by auto
    next
      assume "t = None \<and> (\<exists>pre. rest = pre @ [OnComplete] \<and> \<not> list_ex is_terminal pre)"
      then obtain pre where "t = None" "rest = pre @ [OnComplete]" "\<not> list_ex is_terminal pre"
        by auto
      with s False cbs t show ?thesis by (auto intro!: exI [of _ "here @ pre"])
    qed
  qed
qed

lemma streamResponse_terminal_last:
  "\<not> list_ex is_terminal (butlast (fst (streamResponse p fetch n messages settings)))"
proof -
  have open_ai: "\<not> list_ex is_terminal (butlast (fst (openAIStream p fetch n messages settings)))"
  proof (cases "fetch n (request_body messages settings)")
    case (FetchRejected why)
    then show ?thesis by (simp add: openAIStream_def)
  next
    case (Response status reads)
    obtain cbs thrown where R: "read_loop p [] reads = (cbs, thrown)"
      by (cases "read_loop p [] reads")
    from read_loop_shape [OF R] Response R show ?thesis
      by (cases thrown) (auto simp: openAIStream_def butlast_append list_ex_iff dest: in_set_butlastD)
  qed
  then show ?thesis by (simp add: streamResponse_def Let_def)
qed

text \<open>C2 at a response whose body ends after one record, with neither a blank line nor
  the sentinel. The reader reports \<open>done\<close>, the loop breaks and the method ends: neither
  \<open>onComplete\<close> nor \<open>onError\<close> is called.\<close>

theorem openAIStream_no_terminal_callback:
  "streamResponse JSON_parse_records cut_fetch 0 hello no_settings =
     ([OnChunk (JStr ''Hel'')], 1)"
  by (simp add: streamResponse_def openAIStream_def cut_fetch_def
      no_settings_def defaultSettings_def record_Hel_def
      handle_line_def trim_def is_space_def startsWith_def JSON_parse_records_def
      delta_record_def delta_content_def)

end
